theory Spec2Isabelle
  imports Main
begin

section \<open>The generic repository over a store handle\<close>

text \<open>
  The package wraps a \<^verbatim>\<open>*gorm.DB\<close> handle in a generic \<^verbatim>\<open>Repository[T]\<close> and
  normalises the error of each store call. The embedding follows the nine-method file
  (the one that declares \<^verbatim>\<open>FirstOrFail\<close> and \<^verbatim>\<open>FindOrFail\<close>); line numbers refer to it.

  \<^item> A Go pointer is \<open>None\<close> (nil) or \<open>Some a\<close> for an address \<open>a\<close>.
  \<^item> A Go \<^verbatim>\<open>error\<close> is \<open>None\<close> (nil) or \<open>Some e\<close>. The package compares the store's
    error with one sentinel, \<^verbatim>\<open>gorm.ErrRecordNotFound\<close>, by interface equality; every other
    error value is a \<open>StoreFailure\<close> carrying its message.
  \<^item> A store call returns a \<^verbatim>\<open>*gorm.DB\<close> of which the package reads two fields,
    \<^verbatim>\<open>Error\<close> and \<^verbatim>\<open>RowsAffected\<close> (an \<^verbatim>\<open>int64\<close> that is only passed through, never
    computed with, hence \<open>int\<close>).
  \<^item> A call either returns or panics; nothing in the package recovers, so a panic of
    the store is a panic of the method.
\<close>

type_synonym addr = nat

type_synonym ref = "addr option"

datatype store_error = ErrRecordNotFound | StoreFailure string

type_synonym error = "store_error option"

record gorm_result =
  Error :: error
  RowsAffected :: int

datatype 'a outcome = Panic | Return 'a

text \<open>
  The \<^verbatim>\<open>dest interface{}\<close> argument of a store call, as the package builds it:
  \<^verbatim>\<open>model\<close> (a \<^verbatim>\<open>*T\<close>) for Create, Save and Delete; \<^verbatim>\<open>&model\<close> (the address of the
  parameter, a \<^verbatim>\<open>**T\<close>) for First; \<^verbatim>\<open>&models\<close> (a \<^verbatim>\<open>**[]T\<close>) for Find; and the slice
  \<^verbatim>\<open>models\<close> (a \<^verbatim>\<open>[]*T\<close>) for the bulk insert. The parameter variable itself dies with the
  call, so for \<^verbatim>\<open>&model\<close> the model records the pointer the variable holds.
\<close>

datatype dest =
    Ptr ref
  | PtrPtr ref
  | PtrPtrSlice ref
  | Slice "ref list"

text \<open>
  The store collaborator (gorm.io/gorm) is not part of the package. The five finisher
  methods the package calls are a parameter: each takes the handle it is called on, its
  arguments and the state of the world (the caller's heap and the database), and returns
  the result together with the new world, or panics.
\<close>

record ('h, 'c, 'w) gorm =
  gorm_First :: "'h \<Rightarrow> dest \<Rightarrow> 'c list \<Rightarrow> 'w \<Rightarrow> (gorm_result \<times> 'w) outcome"
  gorm_Find :: "'h \<Rightarrow> dest \<Rightarrow> 'c list \<Rightarrow> 'w \<Rightarrow> (gorm_result \<times> 'w) outcome"
  gorm_Create :: "'h \<Rightarrow> dest \<Rightarrow> 'w \<Rightarrow> (gorm_result \<times> 'w) outcome"
  gorm_Save :: "'h \<Rightarrow> dest \<Rightarrow> 'w \<Rightarrow> (gorm_result \<times> 'w) outcome"
  gorm_Delete :: "'h \<Rightarrow> dest \<Rightarrow> 'w \<Rightarrow> (gorm_result \<times> 'w) outcome"

text \<open>
  \<^verbatim>\<open>type Repository[T IBaseModel] struct { IRepository[T]; Database *gorm.DB }\<close>
  (lines 34-38). The embedded field holds a value of some type \<open>'i\<close> implementing the
  interface, or nil.
\<close>

record ('i, 'h) Repository =
  IRepository :: "'i option"
  Database :: 'h

text \<open>\<^verbatim>\<open>InitRepository\<close> (lines 44-48) sets the handle and nothing else.\<close>

definition InitRepository :: "'h \<Rightarrow> ('i, 'h) Repository" where
  "InitRepository database = \<lparr>IRepository = None, Database = database\<rparr>"

subsection \<open>The methods declared on \<^verbatim>\<open>*Repository[T]\<close>\<close>

text \<open>
  Each takes the store, the receiver, its arguments and the world. The receiver is the
  struct behind a non-nil \<^verbatim>\<open>*Repository[T]\<close>, which is what \<^verbatim>\<open>InitRepository\<close> returns
  and what embedding the struct gives.
\<close>

text \<open>Lines 56-64: \<^verbatim>\<open>res.Error != nil && res.Error != gorm.ErrRecordNotFound\<close>.\<close>

definition First ::
  "('h, 'c, 'w) gorm \<Rightarrow> ('i, 'h) Repository \<Rightarrow> ref \<Rightarrow> 'c list \<Rightarrow> 'w \<Rightarrow> (error \<times> 'w) outcome" where
  "First g r model conds w =
     (case gorm_First g (Database r) (PtrPtr model) conds w of
        Panic \<Rightarrow> Panic
      | Return (res, w') \<Rightarrow>
          if Error res \<noteq> None \<and> Error res \<noteq> Some ErrRecordNotFound
          then Return (Error res, w')
          else Return (None, w'))"

text \<open>Lines 67-75.\<close>

definition FirstOrFail ::
  "('h, 'c, 'w) gorm \<Rightarrow> ('i, 'h) Repository \<Rightarrow> ref \<Rightarrow> 'c list \<Rightarrow> 'w \<Rightarrow> (error \<times> 'w) outcome" where
  "FirstOrFail g r model conds w =
     (case gorm_First g (Database r) (PtrPtr model) conds w of
        Panic \<Rightarrow> Panic
      | Return (res, w') \<Rightarrow>
          if Error res \<noteq> None then Return (Error res, w') else Return (None, w'))"

text \<open>Lines 78-86.\<close>

definition Find ::
  "('h, 'c, 'w) gorm \<Rightarrow> ('i, 'h) Repository \<Rightarrow> ref \<Rightarrow> 'c list \<Rightarrow> 'w \<Rightarrow> (error \<times> 'w) outcome" where
  "Find g r models conds w =
     (case gorm_Find g (Database r) (PtrPtrSlice models) conds w of
        Panic \<Rightarrow> Panic
      | Return (res, w') \<Rightarrow>
          if Error res \<noteq> None \<and> Error res \<noteq> Some ErrRecordNotFound
          then Return (Error res, w')
          else Return (None, w'))"

text \<open>Lines 89-97.\<close>

definition FindOrFail ::
  "('h, 'c, 'w) gorm \<Rightarrow> ('i, 'h) Repository \<Rightarrow> ref \<Rightarrow> 'c list \<Rightarrow> 'w \<Rightarrow> (error \<times> 'w) outcome" where
  "FindOrFail g r models conds w =
     (case gorm_Find g (Database r) (PtrPtrSlice models) conds w of
        Panic \<Rightarrow> Panic
      | Return (res, w') \<Rightarrow>
          if Error res \<noteq> None then Return (Error res, w') else Return (None, w'))"

text \<open>Lines 100-108: \<^verbatim>\<open>return nil, res.Error\<close> on failure, \<^verbatim>\<open>return model, nil\<close> otherwise.\<close>

definition Create ::
  "('h, 'c, 'w) gorm \<Rightarrow> ('i, 'h) Repository \<Rightarrow> ref \<Rightarrow> 'w \<Rightarrow> ((ref \<times> error) \<times> 'w) outcome" where
  "Create g r model w =
     (case gorm_Create g (Database r) (Ptr model) w of
        Panic \<Rightarrow> Panic
      | Return (res, w') \<Rightarrow>
          if Error res \<noteq> None then Return ((None, Error res), w')
          else Return ((model, None), w'))"

text \<open>Lines 111-119: both branches return the store's count.\<close>

definition BulkCreate ::
  "('h, 'c, 'w) gorm \<Rightarrow> ('i, 'h) Repository \<Rightarrow> ref list \<Rightarrow> 'w \<Rightarrow> ((int \<times> error) \<times> 'w) outcome" where
  "BulkCreate g r models w =
     (case gorm_Create g (Database r) (Slice models) w of
        Panic \<Rightarrow> Panic
      | Return (res, w') \<Rightarrow>
          if Error res \<noteq> None then Return ((RowsAffected res, Error res), w')
          else Return ((RowsAffected res, None), w'))"

text \<open>Lines 122-130.\<close>

definition Update ::
  "('h, 'c, 'w) gorm \<Rightarrow> ('i, 'h) Repository \<Rightarrow> ref \<Rightarrow> 'w \<Rightarrow> (error \<times> 'w) outcome" where
  "Update g r model w =
     (case gorm_Save g (Database r) (Ptr model) w of
        Panic \<Rightarrow> Panic
      | Return (res, w') \<Rightarrow>
          if Error res \<noteq> None then Return (Error res, w') else Return (None, w'))"

text \<open>Lines 136-144.\<close>

definition Delete ::
  "('h, 'c, 'w) gorm \<Rightarrow> ('i, 'h) Repository \<Rightarrow> ref \<Rightarrow> 'w \<Rightarrow> ((int \<times> error) \<times> 'w) outcome" where
  "Delete g r model w =
     (case gorm_Delete g (Database r) (Ptr model) w of
        Panic \<Rightarrow> Panic
      | Return (res, w') \<Rightarrow>
          if Error res \<noteq> None then Return ((RowsAffected res, Error res), w')
          else Return ((RowsAffected res, None), w'))"

text \<open>Lines 147-149.\<close>

definition GetDB :: "('i, 'h) Repository \<Rightarrow> 'h" where
  "GetDB r = Database r"

subsection \<open>Calling through the interface\<close>

text \<open>
  \<^verbatim>\<open>InitRepository\<close> returns the \<^verbatim>\<open>*Repository[T]\<close> as an \<^verbatim>\<open>IRepository[T]\<close>. The method
  set of \<^verbatim>\<open>*Repository[T]\<close> holds the nine methods declared with that receiver and, for
  every other name of the embedded interface, the method promoted from the embedded
  field: a selector \<^verbatim>\<open>r.m\<close> takes the method declared on the struct when there is one
  (depth 0) and \<^verbatim>\<open>r.IRepository.m\<close> otherwise. Calling a method of a nil interface value
  panics.
\<close>

datatype 'c call =
    CallFirst ref "'c list"
  | CallFirstOrFail ref "'c list"
  | CallFind ref "'c list"
  | CallFindOrFail ref "'c list"
  | CallCreate ref
  | CallBatchCreate "ref list"
  | CallBulkCreate "ref list"
  | CallUpdate ref
  | CallDelete ref
  | CallGetDB

datatype 'h reply =
    ErrorOnly error
  | RecordAnd ref error
  | CountAnd int error
  | Handle 'h

fun selector :: "'c call \<Rightarrow> string" where
  "selector (CallFirst m cs) = ''First''"
| "selector (CallFirstOrFail m cs) = ''FirstOrFail''"
| "selector (CallFind m cs) = ''Find''"
| "selector (CallFindOrFail m cs) = ''FindOrFail''"
| "selector (CallCreate m) = ''Create''"
| "selector (CallBatchCreate ms) = ''BatchCreate''"
| "selector (CallBulkCreate ms) = ''BulkCreate''"
| "selector (CallUpdate m) = ''Update''"
| "selector (CallDelete m) = ''Delete''"
| "selector CallGetDB = ''GetDB''"

text \<open>The method set of the interface (lines 15-23).\<close>

definition IRepository_methods :: "string list" where
  "IRepository_methods =
     [''First'', ''FirstOrFail'', ''Find'', ''FindOrFail'', ''Create'', ''BatchCreate'',
      ''Update'', ''Delete'', ''GetDB'']"

text \<open>The methods declared with receiver \<^verbatim>\<open>*Repository[T]\<close> (lines 56, 67, 78, 89, 100, 111, 122, 136, 147).\<close>

definition Repository_methods :: "string list" where
  "Repository_methods =
     [''First'', ''FirstOrFail'', ''Find'', ''FindOrFail'', ''Create'', ''BulkCreate'',
      ''Update'', ''Delete'', ''GetDB'']"

fun reply_of :: "('a \<Rightarrow> 'h reply) \<Rightarrow> ('a \<times> 'w) outcome \<Rightarrow> ('h reply \<times> 'w) outcome" where
  "reply_of f Panic = Panic"
| "reply_of f (Return (x, w)) = Return (f x, w)"

text \<open>
  The body that runs for a call when \<^verbatim>\<open>*Repository[T]\<close> declares a method of that name;
  \<open>None\<close> when it declares none.
\<close>

fun declared ::
  "('h, 'c, 'w) gorm \<Rightarrow> ('i, 'h) Repository \<Rightarrow> 'c call \<Rightarrow> 'w \<Rightarrow> ('h reply \<times> 'w) outcome option" where
  "declared g r (CallFirst m cs) w = Some (reply_of ErrorOnly (First g r m cs w))"
| "declared g r (CallFirstOrFail m cs) w = Some (reply_of ErrorOnly (FirstOrFail g r m cs w))"
| "declared g r (CallFind m cs) w = Some (reply_of ErrorOnly (Find g r m cs w))"
| "declared g r (CallFindOrFail m cs) w = Some (reply_of ErrorOnly (FindOrFail g r m cs w))"
| "declared g r (CallCreate m) w = Some (reply_of (\<lambda>(p, e). RecordAnd p e) (Create g r m w))"
| "declared g r (CallBatchCreate ms) w = None"
| "declared g r (CallBulkCreate ms) w = Some (reply_of (\<lambda>(n, e). CountAnd n e) (BulkCreate g r ms w))"
| "declared g r (CallUpdate m) w = Some (reply_of ErrorOnly (Update g r m w))"
| "declared g r (CallDelete m) w = Some (reply_of (\<lambda>(n, e). CountAnd n e) (Delete g r m w))"
| "declared g r CallGetDB w = Some (Return (Handle (GetDB r), w))"

text \<open>
  \<^verbatim>\<open>r.m(args)\<close> on a \<^verbatim>\<open>*Repository[T]\<close>. The parameter \<open>emb\<close> runs a call on the value
  held by the embedded field. The result carries the receiver as the call leaves it; no
  method body assigns to a field of \<^verbatim>\<open>r\<close>.
\<close>

definition invoke ::
  "('i \<Rightarrow> 'c call \<Rightarrow> 'w \<Rightarrow> ('h reply \<times> 'w) outcome) \<Rightarrow> ('h, 'c, 'w) gorm \<Rightarrow>
   ('i, 'h) Repository \<Rightarrow> 'c call \<Rightarrow> 'w \<Rightarrow> ('h reply \<times> ('i, 'h) Repository \<times> 'w) outcome" where
  "invoke emb g r c w =
     (case (case declared g r c w of
              Some out \<Rightarrow> out
            | None \<Rightarrow> (case IRepository r of None \<Rightarrow> Panic | Some i \<Rightarrow> emb i c w)) of
        Panic \<Rightarrow> Panic
      | Return (rep, w') \<Rightarrow> Return (rep, r, w'))"

text \<open>
  A caller's sequence of calls on one repository. A panic ends the sequence; the trace
  keeps every reply.
\<close>

fun run ::
  "('i \<Rightarrow> 'c call \<Rightarrow> 'w \<Rightarrow> ('h reply \<times> 'w) outcome) \<Rightarrow> ('h, 'c, 'w) gorm \<Rightarrow>
   ('i, 'h) Repository \<Rightarrow> 'c call list \<Rightarrow> 'w \<Rightarrow> ('i, 'h) Repository \<times> 'h reply outcome list" where
  "run emb g r [] w = (r, [])"
| "run emb g r (c # cs) w =
     (case invoke emb g r c w of
        Panic \<Rightarrow> (r, [Panic])
      | Return (rep, r', w') \<Rightarrow>
          (case run emb g r' cs w' of (r'', reps) \<Rightarrow> (r'', Return rep # reps)))"

subsection \<open>The single-condition file\<close>

text \<open>
  \<^verbatim>\<open>repository.go\<close> holds the same package with a six-method interface, an unexported
  \<^verbatim>\<open>database\<close> field and one \<^verbatim>\<open>conds interface{}\<close> per read. Its Create, BulkCreate,
  Update, Delete and GetDB have the bodies above. Its two reads (lines 55-63 and 65-73)
  return every error of the store.
\<close>

definition repository_go_First ::
  "('h, 'c, 'w) gorm \<Rightarrow> ('i, 'h) Repository \<Rightarrow> ref \<Rightarrow> 'c \<Rightarrow> 'w \<Rightarrow> (error \<times> 'w) outcome" where
  "repository_go_First g r model conds w =
     (case gorm_First g (Database r) (PtrPtr model) [conds] w of
        Panic \<Rightarrow> Panic
      | Return (res, w') \<Rightarrow>
          if Error res \<noteq> None then Return (Error res, w') else Return (None, w'))"

definition repository_go_Find ::
  "('h, 'c, 'w) gorm \<Rightarrow> ('i, 'h) Repository \<Rightarrow> ref \<Rightarrow> 'c \<Rightarrow> 'w \<Rightarrow> (error \<times> 'w) outcome" where
  "repository_go_Find g r models conds w =
     (case gorm_Find g (Database r) (PtrPtrSlice models) [conds] w of
        Panic \<Rightarrow> Panic
      | Return (res, w') \<Rightarrow>
          if Error res \<noteq> None then Return (Error res, w') else Return (None, w'))"

subsection \<open>A store that answers every call alike\<close>

text \<open>
  A stand-in for the handle in the manner of a test double: every call returns the
  given result and leaves the world as it is.
\<close>

definition canned :: "gorm_result \<Rightarrow> ('h, 'c, 'w) gorm" where
  "canned res =
     \<lparr>gorm_First = (\<lambda>h d conds w. Return (res, w)),
      gorm_Find = (\<lambda>h d conds w. Return (res, w)),
      gorm_Create = (\<lambda>h d w. Return (res, w)),
      gorm_Save = (\<lambda>h d w. Return (res, w)),
      gorm_Delete = (\<lambda>h d w. Return (res, w))\<rparr>"

section \<open>A table store\<close>

text \<open>
  What Save, Delete and the reads do to the rows is decided inside gorm.io/gorm, which
  the package imports and which is not among its files. The definitions of this section
  stand in for it: one table of one record type behind a handle, the caller's heap
  beside it.
\<close>

record row =
  ID :: nat
  Name :: string
  DeletedAt :: "nat option"

text \<open>The filter expressions of a condition set; the package hands them on unread.\<close>

datatype cond = IdEq nat | NameEq string

record world =
  records :: "addr \<rightharpoonup> row"
  slices :: "addr \<rightharpoonup> row list"
  table :: "row list"
  next_id :: nat
  clock :: nat
  soft_delete :: bool

text \<open>
  \<open>records\<close> and \<open>slices\<close> are the caller's heap (what a \<^verbatim>\<open>*T\<close> and a \<^verbatim>\<open>*[]T\<close> point
  to), \<open>table\<close> the stored rows, \<open>next_id\<close> the next identity the store assigns,
  \<open>clock\<close> the current time, and \<open>soft_delete\<close> tells whether the record type carries
  the deletion-timestamp field (identity \<open>0\<close> means the record carries none yet).
\<close>

fun holds :: "row \<Rightarrow> cond \<Rightarrow> bool" where
  "holds x (IdEq i) = (ID x = i)"
| "holds x (NameEq n) = (Name x = n)"

definition visible :: "row \<Rightarrow> bool" where
  "visible x = (DeletedAt x = None)"

definition matching :: "cond list \<Rightarrow> row list \<Rightarrow> row list" where
  "matching conds rows = filter (\<lambda>x. visible x \<and> list_all (holds x) conds) rows"

definition affected :: "int \<Rightarrow> gorm_result" where
  "affected n = \<lparr>Error = None, RowsAffected = n\<rparr>"

definition failure :: "string \<Rightarrow> int \<Rightarrow> gorm_result" where
  "failure msg n = \<lparr>Error = Some (StoreFailure msg), RowsAffected = n\<rparr>"

definition no_rows :: gorm_result where
  "no_rows = \<lparr>Error = Some ErrRecordNotFound, RowsAffected = 0\<rparr>"

text \<open>
  Modelled from the spec: the store's single-row fetch (gorm's \<^verbatim>\<open>First\<close>), section 6 (a)
  and (f): the first match ordered by primary key is written into the target; with no
  match the target is left alone and the distinguished "no rows matched" error is
  reported. A nil handle makes the library dereference nil.
\<close>

definition table_First :: "ref \<Rightarrow> dest \<Rightarrow> cond list \<Rightarrow> world \<Rightarrow> (gorm_result \<times> world) outcome" where
  "table_First h d conds w =
     (case h of
        None \<Rightarrow> Panic
      | Some _ \<Rightarrow>
         (case d of
            PtrPtr p \<Rightarrow>
              (case sort_key ID (matching conds (table w)) of
                 [] \<Rightarrow> Return (no_rows, w)
               | x # _ \<Rightarrow>
                   Return (affected 1,
                     case p of None \<Rightarrow> w | Some a \<Rightarrow> w\<lparr>records := (records w)(a \<mapsto> x)\<rparr>))
          | _ \<Rightarrow> Return (failure ''unsupported data'' 0, w)))"

text \<open>
  Modelled from the spec: the store's multi-row fetch (gorm's \<^verbatim>\<open>Find\<close>), section 6 (b):
  the target sequence is filled with all matches. Section 6 does not say which fetch
  raises the "no rows matched" value. In gorm only the single-row finishers (First,
  Take, Last) raise it; \<^verbatim>\<open>Find\<close> returns an empty result with a nil error. The model
  follows gorm here.
\<close>

definition table_Find :: "ref \<Rightarrow> dest \<Rightarrow> cond list \<Rightarrow> world \<Rightarrow> (gorm_result \<times> world) outcome" where
  "table_Find h d conds w =
     (case h of
        None \<Rightarrow> Panic
      | Some _ \<Rightarrow>
         (case d of
            PtrPtrSlice p \<Rightarrow>
              Return (affected (int (length (matching conds (table w)))),
                case p of
                  None \<Rightarrow> w
                | Some a \<Rightarrow> w\<lparr>slices := (slices w)(a \<mapsto> matching conds (table w))\<rparr>)
          | _ \<Rightarrow> Return (failure ''unsupported data'' 0, w)))"

text \<open>
  Modelled from the spec: the store's insert (gorm's \<^verbatim>\<open>Create\<close>), section 6 (c) and the
  Create row of section 4.2: the row is added and the store writes the identity it
  assigned into the passed record. A nil pointer is refused, and so is an identity that
  is already stored (the constraint violation of section 7).
\<close>

definition store_row :: "addr \<Rightarrow> row \<Rightarrow> world \<Rightarrow> world" where
  "store_row a x w =
     (if ID x = 0
      then w\<lparr>records := (records w)(a \<mapsto> x\<lparr>ID := next_id w\<rparr>),
              table := table w @ [x\<lparr>ID := next_id w\<rparr>],
              next_id := Suc (next_id w)\<rparr>
      else w\<lparr>table := table w @ [x], next_id := max (next_id w) (Suc (ID x))\<rparr>)"

definition insert_one :: "ref \<Rightarrow> world \<Rightarrow> string + world" where
  "insert_one p w =
     (case p of
        None \<Rightarrow> Inl ''invalid value''
      | Some a \<Rightarrow>
         (case records w a of
            None \<Rightarrow> Inl ''invalid value''
          | Some x \<Rightarrow>
              if ID x \<noteq> 0 \<and> list_ex (\<lambda>y. ID y = ID x) (table w)
              then Inl ''duplicated key''
              else Inr (store_row a x w)))"

text \<open>
  Modelled from the spec: the batch insert, section 8: rows go in one after the other,
  and a failure reports the count committed before it.
\<close>

fun insert_all :: "ref list \<Rightarrow> nat \<Rightarrow> world \<Rightarrow> gorm_result \<times> world" where
  "insert_all [] n w = (affected (int n), w)"
| "insert_all (p # ps) n w =
     (case insert_one p w of
        Inl msg \<Rightarrow> (failure msg (int n), w)
      | Inr w' \<Rightarrow> insert_all ps (Suc n) w')"

definition table_Create :: "ref \<Rightarrow> dest \<Rightarrow> world \<Rightarrow> (gorm_result \<times> world) outcome" where
  "table_Create h d w =
     (case h of
        None \<Rightarrow> Panic
      | Some _ \<Rightarrow>
         (case d of
            Ptr p \<Rightarrow>
              (case insert_one p w of
                 Inl msg \<Rightarrow> Return (failure msg 0, w)
               | Inr w' \<Rightarrow> Return (affected 1, w'))
          | Slice ps \<Rightarrow> Return (insert_all ps 0 w)
          | _ \<Rightarrow> Return (failure ''unsupported data'' 0, w)))"

text \<open>
  Modelled from the spec: the store's upsert-by-identity write (gorm's \<^verbatim>\<open>Save\<close>),
  section 6 (d), the Update row of section 4.2 and the doc comment on line 121 ("If value
  doesn't contain a matching primary key, value is inserted"): a stored row with the
  record's identity is overwritten; otherwise the record is inserted.
\<close>

definition table_Save :: "ref \<Rightarrow> dest \<Rightarrow> world \<Rightarrow> (gorm_result \<times> world) outcome" where
  "table_Save h d w =
     (case h of
        None \<Rightarrow> Panic
      | Some _ \<Rightarrow>
         (case d of
            Ptr (Some a) \<Rightarrow>
              (case records w a of
                 None \<Rightarrow> Return (failure ''invalid value'' 0, w)
               | Some x \<Rightarrow>
                   if ID x \<noteq> 0 \<and> list_ex (\<lambda>y. ID y = ID x) (table w)
                   then Return (affected 1,
                          w\<lparr>table := map (\<lambda>y. if ID y = ID x then x else y) (table w)\<rparr>)
                   else Return (affected 1, store_row a x w))
          | Ptr None \<Rightarrow> Return (failure ''invalid value'' 0, w)
          | _ \<Rightarrow> Return (failure ''unsupported data'' 0, w)))"

text \<open>
  Modelled from the spec: the store's delete-or-soft-delete-by-identity (gorm's
  \<^verbatim>\<open>Delete\<close>), section 6 (e), the soft-delete convention of section 6 and the doc comment
  on lines 132-135: the rows with the record's identity that are not yet marked are
  removed, or, when the record type carries the deletion timestamp, marked with the
  current time. The count of those rows is reported. A record without identity gives no
  condition to delete by, which the store refuses.
\<close>

definition hit :: "row \<Rightarrow> row \<Rightarrow> bool" where
  "hit x y = (ID y = ID x \<and> visible y)"

definition table_Delete :: "ref \<Rightarrow> dest \<Rightarrow> world \<Rightarrow> (gorm_result \<times> world) outcome" where
  "table_Delete h d w =
     (case h of
        None \<Rightarrow> Panic
      | Some _ \<Rightarrow>
         (case d of
            Ptr (Some a) \<Rightarrow>
              (case records w a of
                 None \<Rightarrow> Return (failure ''invalid value'' 0, w)
               | Some x \<Rightarrow>
                   if ID x = 0 then Return (failure ''WHERE conditions required'' 0, w)
                   else if soft_delete w
                   then Return (affected (int (length (filter (hit x) (table w)))),
                          w\<lparr>table := map (\<lambda>y. if hit x y then y\<lparr>DeletedAt := Some (clock w)\<rparr> else y)
                                        (table w)\<rparr>)
                   else Return (affected (int (length (filter (hit x) (table w)))),
                          w\<lparr>table := filter (\<lambda>y. \<not> hit x y) (table w)\<rparr>))
          | Ptr None \<Rightarrow> Return (failure ''invalid value'' 0, w)
          | _ \<Rightarrow> Return (failure ''unsupported data'' 0, w)))"

definition table_store :: "(ref, cond, world) gorm" where
  "table_store =
     \<lparr>gorm_First = table_First, gorm_Find = table_Find, gorm_Create = table_Create,
      gorm_Save = table_Save, gorm_Delete = table_Delete\<rparr>"

text \<open>Concrete worlds for the evaluations below: a handle, two stored rows, a caller's record.\<close>

definition ann :: row where
  "ann = \<lparr>ID = 1, Name = ''ann'', DeletedAt = None\<rparr>"

definition bob :: row where
  "bob = \<lparr>ID = 2, Name = ''bob'', DeletedAt = None\<rparr>"

definition blank :: row where
  "blank = \<lparr>ID = 0, Name = [], DeletedAt = None\<rparr>"

definition world0 :: world where
  "world0 =
     \<lparr>records = [0 \<mapsto> blank], slices = [0 \<mapsto> [ann]], table = [bob, ann],
      next_id = 3, clock = 7, soft_delete = False\<rparr>"

definition repo0 :: "(unit, ref) Repository" where
  "repo0 = InitRepository (Some 0)"

text \<open>The embedded field of \<open>repo0\<close> is nil, so nothing is ever asked of its value.\<close>

definition no_embedded :: "unit \<Rightarrow> cond call \<Rightarrow> world \<Rightarrow> (ref reply \<times> world) outcome" where
  "no_embedded i c w = Panic"

text \<open>A handle whose every call fails with the same connectivity error.\<close>

definition refusing :: "(ref, cond, world) gorm" where
  "refusing = canned (failure ''connection refused'' 0)"

text \<open>A handle whose every call answers "no error, no rows".\<close>

definition empty_handed :: "(ref, cond, world) gorm" where
  "empty_handed = canned (affected 0)"

text \<open>A caller's record that carries the identity of a stored row, and a heap holding it.\<close>

definition rob :: row where
  "rob = \<lparr>ID = 2, Name = ''rob'', DeletedAt = None\<rparr>"

definition world1 :: world where
  "world1 = world0\<lparr>records := [0 \<mapsto> blank, 4 \<mapsto> rob]\<rparr>"

section \<open>What each method returns, given the store's answer\<close>

text \<open>
  Each method makes one store call and returns from its result; the world it leaves is
  the world the store left.
\<close>

lemma First_store:
  "gorm_First g (Database r) (PtrPtr model) conds w = Return (res, w') \<Longrightarrow>
   First g r model conds w =
     Return (if Error res = Some ErrRecordNotFound then None else Error res, w')"
  by (simp add: First_def)

lemma Find_store:
  "gorm_Find g (Database r) (PtrPtrSlice models) conds w = Return (res, w') \<Longrightarrow>
   Find g r models conds w =
     Return (if Error res = Some ErrRecordNotFound then None else Error res, w')"
  by (simp add: Find_def)

lemma FirstOrFail_store:
  "gorm_First g (Database r) (PtrPtr model) conds w = Return (res, w') \<Longrightarrow>
   FirstOrFail g r model conds w = Return (Error res, w')"
  by (simp add: FirstOrFail_def)

lemma FindOrFail_store:
  "gorm_Find g (Database r) (PtrPtrSlice models) conds w = Return (res, w') \<Longrightarrow>
   FindOrFail g r models conds w = Return (Error res, w')"
  by (simp add: FindOrFail_def)

lemma Create_store:
  "gorm_Create g (Database r) (Ptr model) w = Return (res, w') \<Longrightarrow>
   Create g r model w = Return ((if Error res = None then model else None, Error res), w')"
  by (simp add: Create_def)

lemma BulkCreate_store:
  "gorm_Create g (Database r) (Slice models) w = Return (res, w') \<Longrightarrow>
   BulkCreate g r models w = Return ((RowsAffected res, Error res), w')"
  by (simp add: BulkCreate_def)

lemma Update_store:
  "gorm_Save g (Database r) (Ptr model) w = Return (res, w') \<Longrightarrow>
   Update g r model w = Return (Error res, w')"
  by (simp add: Update_def)

lemma Delete_store:
  "gorm_Delete g (Database r) (Ptr model) w = Return (res, w') \<Longrightarrow>
   Delete g r model w = Return ((RowsAffected res, Error res), w')"
  by (simp add: Delete_def)

text \<open>The two reads of the single-condition file hand every error on, the sentinel included.\<close>

lemma repository_go_First_store:
  "gorm_First g (Database r) (PtrPtr model) [conds] w = Return (res, w') \<Longrightarrow>
   repository_go_First g r model conds w = Return (Error res, w')"
  by (simp add: repository_go_First_def)

lemma repository_go_Find_store:
  "gorm_Find g (Database r) (PtrPtrSlice models) [conds] w = Return (res, w') \<Longrightarrow>
   repository_go_Find g r models conds w = Return (Error res, w')"
  by (simp add: repository_go_Find_def)

lemma First_never_not_found: "First g r model conds w \<noteq> Return (Some ErrRecordNotFound, v)"
  by (auto simp: First_def split: outcome.splits prod.splits)

lemma Find_never_not_found: "Find g r models conds w \<noteq> Return (Some ErrRecordNotFound, v)"
  by (auto simp: Find_def split: outcome.splits prod.splits)

lemma Create_result:
  "Create g r model w = Return ((p, e), w') \<Longrightarrow>
   (e = None \<longrightarrow> p = model) \<and> (e \<noteq> None \<longrightarrow> p = None)"
  by (auto simp: Create_def split: outcome.splits prod.splits if_splits)

subsection \<open>Facts about the stand-in stores\<close>

lemma canned_calls:
  "gorm_First (canned res) h d conds w = Return (res, w)"
  "gorm_Find (canned res) h d conds w = Return (res, w)"
  "gorm_Create (canned res) h d w = Return (res, w)"
  "gorm_Save (canned res) h d w = Return (res, w)"
  "gorm_Delete (canned res) h d w = Return (res, w)"
  by (simp_all add: canned_def)

lemma table_results:
  "Error (affected n) = None" "RowsAffected (affected n) = n"
  "Error (failure msg n) = Some (StoreFailure msg)" "RowsAffected (failure msg n) = n"
  by (simp_all add: affected_def failure_def)

lemma Error_no_rows: "Error no_rows = Some ErrRecordNotFound"
  by (simp add: no_rows_def)

lemma gorm_First_table: "gorm_First table_store = table_First"
  by (simp add: table_store_def)

lemma gorm_table_store:
  "gorm_Find table_store = table_Find" "gorm_Create table_store = table_Create"
  "gorm_Save table_store = table_Save" "gorm_Delete table_store = table_Delete"
  by (simp_all add: table_store_def)

lemma table_First_no_match:
  "matching conds (table w) = [] \<Longrightarrow>
   table_First (Some h) (PtrPtr p) conds w = Return (no_rows, w)"
  by (simp add: table_First_def)

lemma insert_all_never_no_rows:
  "insert_all ps n w = (res, w') \<Longrightarrow> Error res \<noteq> Some ErrRecordNotFound"
  by (induction ps arbitrary: n w) (auto simp: table_results split: sum.splits)

lemma table_Create_never_no_rows:
  "table_Create h d w = Return (res, w') \<Longrightarrow> Error res \<noteq> Some ErrRecordNotFound"
  by (auto simp: table_Create_def table_results split: option.splits dest.splits sum.splits
      dest: insert_all_never_no_rows)

lemma table_Save_never_no_rows:
  "table_Save h d w = Return (res, w') \<Longrightarrow> Error res \<noteq> Some ErrRecordNotFound"
  by (auto simp: table_Save_def table_results split: option.splits dest.splits if_splits)

lemma table_Delete_never_no_rows:
  "table_Delete h d w = Return (res, w') \<Longrightarrow> Error res \<noteq> Some ErrRecordNotFound"
  by (auto simp: table_Delete_def table_results split: option.splits dest.splits if_splits)

lemma insert_all_count:
  "insert_all ps n w = (res, w') \<Longrightarrow> Error res = None \<Longrightarrow>
   RowsAffected res = int (n + length ps)"
  by (induction ps arbitrary: n w) (auto simp: table_results split: sum.splits)

lemma table_Create_keyless:
  "records w a = Some x \<Longrightarrow> ID x = 0 \<Longrightarrow>
   table_Create (Some h) (Ptr (Some a)) w = Return (affected 1, store_row a x w)"
  by (simp add: table_Create_def insert_one_def)

lemma records_store_row:
  "ID x = 0 \<Longrightarrow> records (store_row a x w) a = Some (x\<lparr>ID := next_id w\<rparr>)"
  by (simp add: store_row_def)

text \<open>
  The struct's own bulk insert on the table store: when it returns without error, the
  count is the number of records passed.
\<close>

lemma BulkCreate_counts:
  assumes "Database r = Some h"
      and "BulkCreate table_store r ms w = Return ((n, None), w')"
  shows "n = int (length ms)"
proof -
  obtain res v where i: "insert_all ms 0 w = (res, v)"
    by (cases "insert_all ms 0 w") auto
  with assms(1) have "gorm_Create table_store (Database r) (Slice ms) w = Return (res, v)"
    by (simp add: gorm_table_store table_Create_def)
  then have "BulkCreate table_store r ms w = Return ((RowsAffected res, Error res), v)"
    by (rule BulkCreate_store)
  with assms(2) have "n = RowsAffected res" and "Error res = None"
    by simp_all
  with insert_all_count [OF i] show ?thesis
    by simp
qed

lemma repo0_handle: "Database repo0 = Some 0" "IRepository repo0 = None"
  by (simp_all add: repo0_def InitRepository_def)

lemma zed_no_match: "matching [NameEq ''zed''] (table world0) = []"
  by (simp add: matching_def world0_def ann_def bob_def)

lemma world0_insert: "insert_one (Some 0) world0 = Inr (store_row 0 blank world0)"
  by (simp add: insert_one_def world0_def blank_def)

lemma world1_simps:
  "records world1 0 = Some blank" "records world1 4 = Some rob"
  "table world1 = [bob, ann]" "next_id world1 = 3" "clock world1 = 7" "soft_delete world1 = False"
  by (simp_all add: world1_def world0_def)

lemma row_simps:
  "ID ann = 1" "ID bob = 2" "ID rob = 2" "ID blank = 0"
  "visible ann" "visible bob" "visible rob"
  by (simp_all add: ann_def bob_def rob_def blank_def visible_def)

section \<open>Reads that find nothing\<close>

text \<open>
  Claim C1. When no row matches the condition set, \<^verbatim>\<open>First\<close> returns a nil error and the
  caller's target record stays as it was: the store's "record not found" error is
  suppressed, not propagated.

  The claim names two bodies of \<^verbatim>\<open>First\<close> and holds for one. In the nine-method file
  the suppression is there; in \<^verbatim>\<open>repository.go\<close> no read has it. As amended:

  \<^item> for every store: if the single-row fetch reports the not-found sentinel, the
    variadic \<^verbatim>\<open>First\<close> of the nine-method file returns nil, and the world the caller sees
    is the one the store left, so the package itself writes nothing to the target;
  \<^item> on the table store: with zero matches that \<^verbatim>\<open>First\<close> returns nil and the whole
    world, the target included, is unchanged;
  \<^item> for every store: the single-condition \<^verbatim>\<open>First\<close> of \<^verbatim>\<open>repository.go\<close> returns the
    sentinel to the caller when the fetch reports it, again with the world the store
    left.
\<close>

theorem First_on_not_found:
  "(gorm_First g (Database r) (PtrPtr model) conds w = Return (res, w') \<and>
      Error res = Some ErrRecordNotFound \<longrightarrow>
    First g r model conds w = Return (None, w')) \<and>
   (Database tr = Some h \<and> matching tconds (table tw) = [] \<longrightarrow>
    First table_store tr model tconds tw = Return (None, tw)) \<and>
   (gorm_First g (Database r) (PtrPtr model) [c] w = Return (sres, sw') \<and>
      Error sres = Some ErrRecordNotFound \<longrightarrow>
    repository_go_First g r model c w = Return (Some ErrRecordNotFound, sw'))"
proof (intro conjI impI)
  assume "gorm_First g (Database r) (PtrPtr model) conds w = Return (res, w') \<and>
      Error res = Some ErrRecordNotFound"
  then show "First g r model conds w = Return (None, w')"
    by (simp add: First_store)
next
  assume "Database tr = Some h \<and> matching tconds (table tw) = []"
  then have "gorm_First table_store (Database tr) (PtrPtr model) tconds tw = Return (no_rows, tw)"
    by (simp add: gorm_First_table table_First_no_match)
  then show "First table_store tr model tconds tw = Return (None, tw)"
    by (simp add: First_store Error_no_rows)
next
  assume "gorm_First g (Database r) (PtrPtr model) [c] w = Return (sres, sw') \<and>
      Error sres = Some ErrRecordNotFound"
  then show "repository_go_First g r model c w = Return (Some ErrRecordNotFound, sw')"
    by (simp add: repository_go_First_store)
qed

theorem First_on_not_found_witness:
  "gorm_First table_store (Database repo0) (PtrPtr (Some 0)) [NameEq ''zed''] world0
     = Return (no_rows, world0) \<and>
   Error no_rows = Some ErrRecordNotFound \<and>
   Database repo0 = Some 0 \<and> matching [NameEq ''zed''] (table world0) = [] \<and>
   First table_store repo0 (Some 0) [NameEq ''zed''] world0 = Return (None, world0) \<and>
   records world0 0 = Some blank \<and>
   repository_go_First table_store repo0 (Some 0) (NameEq ''zed'') world0
     = Return (Some ErrRecordNotFound, world0)"
proof -
  have s: "gorm_First table_store (Database repo0) (PtrPtr (Some 0)) [NameEq ''zed''] world0
      = Return (no_rows, world0)"
    by (simp add: repo0_handle gorm_First_table table_First_no_match zed_no_match)
  have b: "records world0 0 = Some blank"
    by (simp add: world0_def)
  from First_on_not_found [where g = table_store and r = repo0 and model = "Some 0"
      and conds = "[NameEq ''zed'']" and w = world0 and res = no_rows and w' = world0
      and tr = repo0 and h = 0 and tconds = "[NameEq ''zed'']" and tw = world0
      and c = "NameEq ''zed''" and sres = no_rows and sw' = world0]
  show ?thesis using s b
    by (simp add: repo0_handle zed_no_match Error_no_rows)
qed

text \<open>
  The claim as it was stated, at the \<^verbatim>\<open>First\<close> of \<^verbatim>\<open>repository.go\<close> (lines 55-63): no
  stored row is named "zed", and the caller gets the sentinel, not nil.
\<close>

theorem repository_go_First_returns_not_found:
  "matching [NameEq ''zed''] (table world0) = [] \<and>
   repository_go_First table_store repo0 (Some 0) (NameEq ''zed'') world0
     = Return (Some ErrRecordNotFound, world0) \<and>
   repository_go_First table_store repo0 (Some 0) (NameEq ''zed'') world0
     \<noteq> Return (None, world0)"
proof -
  have "gorm_First table_store (Database repo0) (PtrPtr (Some 0)) [NameEq ''zed''] world0
      = Return (no_rows, world0)"
    by (simp add: repo0_handle gorm_First_table table_First_no_match zed_no_match)
  then have "repository_go_First table_store repo0 (Some 0) (NameEq ''zed'') world0
      = Return (Some ErrRecordNotFound, world0)"
    by (simp add: repository_go_First_store Error_no_rows)
  then show ?thesis
    by (simp add: zed_no_match)
qed

text \<open>
  Claim C3. When no row matches, \<^verbatim>\<open>FirstOrFail\<close> returns a not-found error that can be
  told from every other store error, and only the \<^verbatim>\<open>*OrFail\<close> operations surface it.

  \<^verbatim>\<open>FirstOrFail\<close> returns the sentinel exactly when the store's single-row fetch
  reported it (any other error comes back as itself); on the table store zero matches
  give the sentinel. \<^verbatim>\<open>First\<close> and \<^verbatim>\<open>Find\<close> never return the sentinel, whatever the
  store does. The write methods take no condition set and hand on the store's error; on
  the table store no write reports the sentinel, so none of them returns it.
\<close>

theorem FirstOrFail_surfaces_not_found:
  "(gorm_First g (Database r) (PtrPtr model) conds w = Return (res, w') \<longrightarrow>
      (FirstOrFail g r model conds w = Return (Some ErrRecordNotFound, w')) =
      (Error res = Some ErrRecordNotFound)) \<and>
   (Database tr = Some h \<and> matching tconds (table tw) = [] \<longrightarrow>
      FirstOrFail table_store tr model tconds tw = Return (Some ErrRecordNotFound, tw)) \<and>
   First g r model conds w \<noteq> Return (Some ErrRecordNotFound, v) \<and>
   Find g r models conds w \<noteq> Return (Some ErrRecordNotFound, v) \<and>
   Create table_store tr model tw \<noteq> Return ((p, Some ErrRecordNotFound), tv) \<and>
   BulkCreate table_store tr ms tw \<noteq> Return ((n, Some ErrRecordNotFound), tv) \<and>
   Update table_store tr model tw \<noteq> Return (Some ErrRecordNotFound, tv) \<and>
   Delete table_store tr model tw \<noteq> Return ((n, Some ErrRecordNotFound), tv)"
proof (intro conjI impI)
  assume "gorm_First g (Database r) (PtrPtr model) conds w = Return (res, w')"
  then show "(FirstOrFail g r model conds w = Return (Some ErrRecordNotFound, w')) =
      (Error res = Some ErrRecordNotFound)"
    by (simp add: FirstOrFail_store)
next
  assume "Database tr = Some h \<and> matching tconds (table tw) = []"
  then have "gorm_First table_store (Database tr) (PtrPtr model) tconds tw = Return (no_rows, tw)"
    by (simp add: gorm_First_table table_First_no_match)
  then show "FirstOrFail table_store tr model tconds tw = Return (Some ErrRecordNotFound, tw)"
    by (simp add: FirstOrFail_store Error_no_rows)
next
  show "First g r model conds w \<noteq> Return (Some ErrRecordNotFound, v)"
    by (rule First_never_not_found)
next
  show "Find g r models conds w \<noteq> Return (Some ErrRecordNotFound, v)"
    by (rule Find_never_not_found)
next
  show "Create table_store tr model tw \<noteq> Return ((p, Some ErrRecordNotFound), tv)"
    by (auto simp: Create_def table_store_def split: outcome.splits prod.splits
        dest: table_Create_never_no_rows)
next
  show "BulkCreate table_store tr ms tw \<noteq> Return ((n, Some ErrRecordNotFound), tv)"
    by (auto simp: BulkCreate_def table_store_def split: outcome.splits prod.splits
        dest: table_Create_never_no_rows)
next
  show "Update table_store tr model tw \<noteq> Return (Some ErrRecordNotFound, tv)"
    by (auto simp: Update_def table_store_def split: outcome.splits prod.splits
        dest: table_Save_never_no_rows)
next
  show "Delete table_store tr model tw \<noteq> Return ((n, Some ErrRecordNotFound), tv)"
    by (auto simp: Delete_def table_store_def split: outcome.splits prod.splits
        dest: table_Delete_never_no_rows)
qed

theorem FirstOrFail_surfaces_not_found_witness:
  "gorm_First table_store (Database repo0) (PtrPtr (Some 0)) [NameEq ''zed''] world0
     = Return (no_rows, world0) \<and>
   Database repo0 = Some 0 \<and> matching [NameEq ''zed''] (table world0) = [] \<and>
   FirstOrFail table_store repo0 (Some 0) [NameEq ''zed''] world0
     = Return (Some ErrRecordNotFound, world0) \<and>
   First table_store repo0 (Some 0) [NameEq ''zed''] world0
     \<noteq> Return (Some ErrRecordNotFound, world0)"
proof -
  have s: "gorm_First table_store (Database repo0) (PtrPtr (Some 0)) [NameEq ''zed''] world0
      = Return (no_rows, world0)"
    by (simp add: repo0_handle gorm_First_table table_First_no_match zed_no_match)
  from FirstOrFail_surfaces_not_found [of table_store repo0 "Some 0" "[NameEq ''zed'']" world0
      no_rows world0 repo0 0 "[NameEq ''zed'']" world0 world0]
  show ?thesis using s
    by (simp add: repo0_handle zed_no_match Error_no_rows)
qed

section \<open>Store failures\<close>

text \<open>
  Claim C4. In every operation, a store error other than the "record not found" value
  reaches the caller unmodified: it is not suppressed, retried or replaced; only the
  not-found value is ever suppressed.

  For each of the eight methods that call the store: if the call reports an error \<open>e\<close>
  that is not the sentinel, the method returns that same \<open>e\<close>, and the world it returns
  is the world after that one call. Since the method then returns a non-nil error, a nil
  error for a failed call can only come from the sentinel.
\<close>

theorem store_failure_propagated:
  assumes "Error res = Some e" and "e \<noteq> ErrRecordNotFound"
  shows
  "(gorm_First g (Database r) (PtrPtr model) conds w = Return (res, w') \<longrightarrow>
      First g r model conds w = Return (Some e, w') \<and>
      FirstOrFail g r model conds w = Return (Some e, w')) \<and>
   (gorm_Find g (Database r) (PtrPtrSlice model) conds w = Return (res, w') \<longrightarrow>
      Find g r model conds w = Return (Some e, w') \<and>
      FindOrFail g r model conds w = Return (Some e, w')) \<and>
   (gorm_Create g (Database r) (Ptr model) w = Return (res, w') \<longrightarrow>
      Create g r model w = Return ((None, Some e), w')) \<and>
   (gorm_Create g (Database r) (Slice models) w = Return (res, w') \<longrightarrow>
      BulkCreate g r models w = Return ((RowsAffected res, Some e), w')) \<and>
   (gorm_Save g (Database r) (Ptr model) w = Return (res, w') \<longrightarrow>
      Update g r model w = Return (Some e, w')) \<and>
   (gorm_Delete g (Database r) (Ptr model) w = Return (res, w') \<longrightarrow>
      Delete g r model w = Return ((RowsAffected res, Some e), w'))"
  using assms
  by (simp add: First_store FirstOrFail_store Find_store FindOrFail_store Create_store
      BulkCreate_store Update_store Delete_store)

theorem store_failure_propagated_witness:
  "Error (failure ''connection refused'' 0) = Some (StoreFailure ''connection refused'') \<and>
   StoreFailure ''connection refused'' \<noteq> ErrRecordNotFound \<and>
   First refusing repo0 (Some 0) [IdEq 1] world0
     = Return (Some (StoreFailure ''connection refused''), world0) \<and>
   FirstOrFail refusing repo0 (Some 0) [IdEq 1] world0
     = Return (Some (StoreFailure ''connection refused''), world0) \<and>
   Find refusing repo0 (Some 0) [IdEq 1] world0
     = Return (Some (StoreFailure ''connection refused''), world0) \<and>
   FindOrFail refusing repo0 (Some 0) [IdEq 1] world0
     = Return (Some (StoreFailure ''connection refused''), world0) \<and>
   Create refusing repo0 (Some 0) world0
     = Return ((None, Some (StoreFailure ''connection refused'')), world0) \<and>
   BulkCreate refusing repo0 [Some 0] world0
     = Return ((0, Some (StoreFailure ''connection refused'')), world0) \<and>
   Update refusing repo0 (Some 0) world0
     = Return (Some (StoreFailure ''connection refused''), world0) \<and>
   Delete refusing repo0 (Some 0) world0
     = Return ((0, Some (StoreFailure ''connection refused'')), world0)"
proof -
  have e: "Error (failure ''connection refused'' 0) = Some (StoreFailure ''connection refused'')"
    by (simp add: table_results)
  have n: "StoreFailure ''connection refused'' \<noteq> ErrRecordNotFound"
    by simp
  from store_failure_propagated [OF e n, of refusing repo0 "Some 0" "[IdEq 1]" world0 world0
      "[Some 0]"]
  show ?thesis
    by (simp add: refusing_def canned_calls table_results)
qed

section \<open>The record a call returns\<close>

lemma reply_of_Return:
  "reply_of f out = Return (rep, w') \<Longrightarrow> \<exists>x. out = Return (x, w') \<and> rep = f x"
  by (cases out) auto

lemma declared_record:
  "declared g r c w = Some (Return (RecordAnd p e, w')) \<Longrightarrow>
   \<exists>m. c = CallCreate m \<and> Create g r m w = Return ((p, e), w')"
  by (cases c) (auto dest!: reply_of_Return)

text \<open>
  Claim C5. A \<^verbatim>\<open>Create\<close> that returns a record returns the very reference the caller
  passed (which by then carries the identity the store assigned), not a fresh value, and
  the same holds for every operation that returns a record.

  \<^verbatim>\<open>Create\<close> returns with a nil error only the pointer \<open>model\<close> it was given, and nil
  beside an error. Among the declared methods, a reply that carries a record and a nil
  error comes from \<^verbatim>\<open>Create\<close> alone and is the pointer of that call. On the table
  store, a record without identity comes back as the same pointer, and behind it the
  caller finds the record with the identity the store assigned.
\<close>

theorem Create_returns_passed_reference:
  "(Create g r model w = Return ((p, e), w') \<longrightarrow>
      (e = None \<longrightarrow> p = model) \<and> (e \<noteq> None \<longrightarrow> p = None)) \<and>
   (declared g r c w = Some (Return (RecordAnd p None, w')) \<longrightarrow> c = CallCreate p) \<and>
   (Database tr = Some h \<and> records tw a = Some x \<and> ID x = 0 \<longrightarrow>
      Create table_store tr (Some a) tw = Return ((Some a, None), store_row a x tw) \<and>
      records (store_row a x tw) a = Some (x\<lparr>ID := next_id tw\<rparr>))"
proof (intro conjI impI)
  assume "Create g r model w = Return ((p, e), w')" and "e = None"
  then show "p = model"
    by (simp add: Create_result)
next
  assume "Create g r model w = Return ((p, e), w')" and "e \<noteq> None"
  then show "p = None"
    by (simp add: Create_result)
next
  assume "declared g r c w = Some (Return (RecordAnd p None, w'))"
  from declared_record [OF this]
  obtain m where c: "c = CallCreate m" and m: "Create g r m w = Return ((p, None), w')"
    by auto
  from Create_result [OF m] have "p = m"
    by simp
  with c show "c = CallCreate p"
    by simp
next
  assume "Database tr = Some h \<and> records tw a = Some x \<and> ID x = 0"
  then have "gorm_Create table_store (Database tr) (Ptr (Some a)) tw
      = Return (affected 1, store_row a x tw)"
    by (simp add: gorm_table_store table_Create_keyless)
  then show "Create table_store tr (Some a) tw = Return ((Some a, None), store_row a x tw)"
    by (simp add: Create_store table_results)
next
  assume "Database tr = Some h \<and> records tw a = Some x \<and> ID x = 0"
  then show "records (store_row a x tw) a = Some (x\<lparr>ID := next_id tw\<rparr>)"
    by (simp add: records_store_row)
qed

theorem Create_returns_passed_reference_witness:
  "Create table_store repo0 (Some 0) world0 = Return ((Some 0, None), store_row 0 blank world0) \<and>
   declared table_store repo0 (CallCreate (Some 0)) world0
     = Some (Return (RecordAnd (Some 0) None, store_row 0 blank world0)) \<and>
   Database repo0 = Some 0 \<and> records world0 0 = Some blank \<and> ID blank = 0 \<and>
   records (store_row 0 blank world0) 0 = Some (blank\<lparr>ID := 3\<rparr>)"
proof -
  have b: "records world0 0 = Some blank" "next_id world0 = 3"
    by (simp_all add: world0_def)
  from Create_returns_passed_reference [of table_store repo0 "Some 0" world0 "Some 0" None
      "store_row 0 blank world0" "CallCreate (Some 0)" repo0 0 world0 0 blank]
  show ?thesis using b
    by (simp add: repo0_handle row_simps)
qed

section \<open>The bound handle\<close>

lemma invoke_receiver: "invoke emb g r c w = Return (rep, r', w') \<Longrightarrow> r' = r"
  unfolding invoke_def by (auto split: outcome.splits prod.splits)

lemma run_receiver: "fst (run emb g r cs w) = r"
proof (induction cs arbitrary: w)
  case Nil
  show ?case by simp
next
  case (Cons c cs)
  show ?case
  proof (cases "invoke emb g r c w")
    case Panic
    then show ?thesis by simp
  next
    case (Return t)
    obtain rep r' w' where t: "t = (rep, r', w')" by (cases t) auto
    with Return have "r' = r" by (auto dest: invoke_receiver)
    with Return t Cons.IH [of w'] show ?thesis
      by (simp add: case_prod_beta)
  qed
qed

lemma declared_Handle:
  "declared g r c w = Some (Return (Handle x, w')) \<Longrightarrow> x = Database r"
  by (cases c) (auto simp: GetDB_def dest!: reply_of_Return)

lemma invoke_declared:
  "IRepository r = None \<Longrightarrow> invoke emb g r c w = Return (rep, r', w') \<Longrightarrow>
   declared g r c w = Some (Return (rep, w'))"
  by (cases "declared g r c w") (auto simp: invoke_def split: outcome.splits)

lemma invoke_Handle:
  "IRepository r = None \<Longrightarrow> invoke emb g r c w = Return (Handle x, r', w') \<Longrightarrow> x = Database r"
  by (blast dest: invoke_declared declared_Handle)

lemma run_Handle:
  "IRepository r = None \<Longrightarrow> Return (Handle x) \<in> set (snd (run emb g r cs w)) \<Longrightarrow> x = Database r"
proof (induction cs arbitrary: w)
  case Nil
  then show ?case by simp
next
  case (Cons c cs)
  show ?case
  proof (cases "invoke emb g r c w")
    case Panic
    with Cons.prems show ?thesis by simp
  next
    case (Return t)
    obtain rep r' w' where t: "t = (rep, r', w')" by (cases t) auto
    with Return have r': "r' = r" by (auto dest: invoke_receiver)
    from Cons.prems(2) Return t r'
    have "rep = Handle x \<or> Return (Handle x) \<in> set (snd (run emb g r cs w'))"
      by (auto simp: case_prod_beta)
    then show ?thesis
    proof
      assume "rep = Handle x"
      with Return t Cons.prems(1) show ?thesis by (auto dest: invoke_Handle)
    next
      assume "Return (Handle x) \<in> set (snd (run emb g r cs w'))"
      with Cons.IH [OF Cons.prems(1)] show ?thesis by blast
    qed
  qed
qed

text \<open>
  Claim C9. Whatever sequence of operations is performed on a repository, its bound
  store handle never changes: no operation writes the field set at construction, and
  \<^verbatim>\<open>GetDB\<close> always returns the handle passed to \<^verbatim>\<open>InitRepository\<close>.

  For every list of calls, every store and every starting world: the receiver after the
  run still holds \<open>h\<close>, \<^verbatim>\<open>GetDB\<close> on it returns \<open>h\<close>, and every handle returned during
  the run is \<open>h\<close>. (The field is exported in the nine-method file, so an assignment
  from outside the package could change it; the operations are the calls of \<open>run\<close>.)
\<close>

theorem handle_never_changes:
  "Database (fst (run emb g (InitRepository h) cs w)) = h \<and>
   GetDB (fst (run emb g (InitRepository h) cs w)) = h \<and>
   (Return (Handle x) \<in> set (snd (run emb g (InitRepository h) cs w)) \<longrightarrow> x = h)"
  using run_Handle [of "InitRepository h" x emb g cs w]
  by (auto simp: run_receiver GetDB_def InitRepository_def)

theorem handle_never_changes_witness:
  "run no_embedded table_store (InitRepository (Some 0))
     [CallGetDB, CallFirst (Some 0) [IdEq 2], CallBatchCreate [Some 0], CallGetDB] world0
   = (InitRepository (Some 0), [Return (Handle (Some 0)), Return (ErrorOnly None), Panic]) \<and>
   Return (Handle (Some 0)) \<in> set (snd (run no_embedded table_store (InitRepository (Some 0))
     [CallGetDB, CallFirst (Some 0) [IdEq 2], CallBatchCreate [Some 0], CallGetDB] world0)) \<and>
   Database (fst (run no_embedded table_store (InitRepository (Some 0))
     [CallGetDB, CallFirst (Some 0) [IdEq 2], CallBatchCreate [Some 0], CallGetDB] world0)) = Some 0"
proof -
  have f: "First table_store (InitRepository (Some 0)) (Some 0) [IdEq 2] world0
      = Return (None, world0\<lparr>records := [0 \<mapsto> bob]\<rparr>)"
    by (simp add: First_def table_store_def table_First_def InitRepository_def matching_def
        visible_def world0_def ann_def bob_def table_results)
  have r: "run no_embedded table_store (InitRepository (Some 0))
     [CallGetDB, CallFirst (Some 0) [IdEq 2], CallBatchCreate [Some 0], CallGetDB] world0
   = (InitRepository (Some 0), [Return (Handle (Some 0)), Return (ErrorOnly None), Panic])"
    by (simp add: invoke_def f GetDB_def) (simp add: InitRepository_def)
  from handle_never_changes [of no_embedded table_store "Some 0"
      "[CallGetDB, CallFirst (Some 0) [IdEq 2], CallBatchCreate [Some 0], CallGetDB]" world0 "Some 0"]
  show ?thesis using r by simp
qed

section \<open>The bulk insert behind the interface\<close>

lemma declared_iff: "(declared g r c w = None) = (selector c \<notin> set Repository_methods)"
  by (cases c) (simp_all add: Repository_methods_def)

text \<open>
  Claim C10. In a repository made by \<^verbatim>\<open>InitRepository\<close> the embedded interface field
  is nil, and the struct declares \<^verbatim>\<open>BulkCreate\<close> where the interface declares
  \<^verbatim>\<open>BatchCreate\<close>; so \<^verbatim>\<open>BatchCreate\<close> called through the returned interface goes to the
  nil embedded interface and panics instead of inserting.
\<close>

theorem BatchCreate_through_interface_panics:
  "IRepository (InitRepository h) = None \<and>
   selector (CallBatchCreate ms) \<in> set IRepository_methods \<and>
   selector (CallBatchCreate ms) \<notin> set Repository_methods \<and>
   selector (CallBulkCreate ms) \<in> set Repository_methods \<and>
   selector (CallBulkCreate ms) \<notin> set IRepository_methods \<and>
   (declared g (InitRepository h) c w = None) = (selector c \<notin> set Repository_methods) \<and>
   invoke emb g (InitRepository h) (CallBatchCreate ms) w = Panic"
  by (simp add: declared_iff InitRepository_def IRepository_methods_def Repository_methods_def
      invoke_def)

text \<open>
  Claim C6. \<^verbatim>\<open>BatchCreate\<close> with N records returns an affected-row count of exactly N when
  the store succeeds, and on a store failure the error together with the count the
  store reports.

  The code at an input where the claim fails: one record, a store that would insert it.
  The interface's \<^verbatim>\<open>BatchCreate\<close> panics; the struct's own \<^verbatim>\<open>BulkCreate\<close>, which no
  interface call reaches, returns the count 1 and a nil error.
\<close>

theorem BatchCreate_panics_where_BulkCreate_counts:
  "invoke no_embedded table_store repo0 (CallBatchCreate [Some 0]) world0 = Panic \<and>
   BulkCreate table_store repo0 [Some 0] world0 = Return ((1, None), store_row 0 blank world0) \<and>
   table (store_row 0 blank world0) = [bob, ann, \<lparr>ID = 3, Name = [], DeletedAt = None\<rparr>]"
proof -
  have "gorm_Create table_store (Database repo0) (Slice [Some 0]) world0
     = Return (affected 1, store_row 0 blank world0)"
    by (simp add: table_store_def table_Create_def repo0_handle world0_insert)
  then have "BulkCreate table_store repo0 [Some 0] world0
      = Return ((1, None), store_row 0 blank world0)"
    by (simp add: BulkCreate_store table_results)
  moreover have "invoke no_embedded table_store repo0 (CallBatchCreate [Some 0]) world0 = Panic"
    by (simp add: invoke_def repo0_handle)
  moreover have "table (store_row 0 blank world0)
      = [bob, ann, \<lparr>ID = 3, Name = [], DeletedAt = None\<rparr>]"
    by (simp add: store_row_def world0_def blank_def)
  ultimately show ?thesis by simp
qed

section \<open>A multi-row read that finds nothing\<close>

text \<open>
  Claim C2. When no row matches, \<^verbatim>\<open>FindOrFail\<close> returns a distinct not-found error (and
  \<^verbatim>\<open>Find\<close> returns no error with an empty result).

  \<^verbatim>\<open>FindOrFail\<close> has no test of its own for an empty result: by \<open>FindOrFail_store\<close> it
  returns the error of the store's \<^verbatim>\<open>Find\<close> and nothing else. The code at inputs where
  the claim fails. On the table store no stored row is named "zed"; the fetch fills the
  target with the empty sequence and reports no error, and \<^verbatim>\<open>FindOrFail\<close> returns nil,
  as \<^verbatim>\<open>Find\<close> does. The same with any handle whose \<^verbatim>\<open>Find\<close> answers with a nil error
  and zero rows affected.
\<close>

theorem FindOrFail_zero_matches_returns_nil:
  "matching [NameEq ''zed''] (table world0) = [] \<and>
   FindOrFail table_store repo0 (Some 0) [NameEq ''zed''] world0
     = Return (None, world0\<lparr>slices := [0 \<mapsto> []]\<rparr>) \<and>
   Find table_store repo0 (Some 0) [NameEq ''zed''] world0
     = Return (None, world0\<lparr>slices := [0 \<mapsto> []]\<rparr>) \<and>
   gorm_Find empty_handed (Database repo0) (PtrPtrSlice (Some 0)) [NameEq ''zed''] world0
     = Return (\<lparr>Error = None, RowsAffected = 0\<rparr>, world0) \<and>
   FindOrFail empty_handed repo0 (Some 0) [NameEq ''zed''] world0 = Return (None, world0)"
proof -
  have "gorm_Find table_store (Database repo0) (PtrPtrSlice (Some 0)) [NameEq ''zed''] world0
     = Return (affected 0, world0\<lparr>slices := [0 \<mapsto> []]\<rparr>)"
    by (simp add: table_store_def table_Find_def repo0_handle zed_no_match) (simp add: world0_def)
  then have t: "FindOrFail table_store repo0 (Some 0) [NameEq ''zed''] world0
     = Return (None, world0\<lparr>slices := [0 \<mapsto> []]\<rparr>)"
    "Find table_store repo0 (Some 0) [NameEq ''zed''] world0
     = Return (None, world0\<lparr>slices := [0 \<mapsto> []]\<rparr>)"
    by (simp_all add: FindOrFail_store Find_store table_results)
  have e: "gorm_Find empty_handed (Database repo0) (PtrPtrSlice (Some 0)) [NameEq ''zed''] world0
     = Return (\<lparr>Error = None, RowsAffected = 0\<rparr>, world0)"
    by (simp add: empty_handed_def canned_calls affected_def)
  then have "FindOrFail empty_handed repo0 (Some 0) [NameEq ''zed''] world0 = Return (None, world0)"
    by (simp add: FindOrFail_store)
  with t e show ?thesis
    by (simp add: zed_no_match)
qed

section \<open>Writes on the table store\<close>

lemma table_Save_known:
  "records w a = Some x \<Longrightarrow> ID x \<noteq> 0 \<Longrightarrow> list_ex (\<lambda>y. ID y = ID x) (table w) \<Longrightarrow>
   table_Save (Some h) (Ptr (Some a)) w =
     Return (affected 1, w\<lparr>table := map (\<lambda>y. if ID y = ID x then x else y) (table w)\<rparr>)"
  by (simp add: table_Save_def)

lemma table_Save_new:
  "records w a = Some x \<Longrightarrow> \<not> (ID x \<noteq> 0 \<and> list_ex (\<lambda>y. ID y = ID x) (table w)) \<Longrightarrow>
   table_Save (Some h) (Ptr (Some a)) w = Return (affected 1, store_row a x w)"
  by (auto simp: table_Save_def)

lemma table_store_row:
  "table (store_row a x w) = table w @ [if ID x = 0 then x\<lparr>ID := next_id w\<rparr> else x]"
  by (simp add: store_row_def)

lemma same_identity_count:
  "length (filter (\<lambda>y. ID y = ID x) (map (\<lambda>y. if ID y = ID x then x else y) rows))
   = length (filter (\<lambda>y. ID y = ID x) rows)"
proof -
  have "filter (\<lambda>y. ID y = ID x) (map (\<lambda>y. if ID y = ID x then x else y) rows)
        = map (\<lambda>y. x) (filter (\<lambda>y. ID y = ID x) rows)"
    by (induction rows) simp_all
  then show ?thesis
    by (simp only: length_map)
qed

text \<open>
  Claim C7. \<^verbatim>\<open>Update\<close> of a record whose identity is stored changes the stored row and
  creates no duplicate; \<^verbatim>\<open>Update\<close> of a record with no matching stored identity inserts
  exactly one new row and returns no error (upsert; each such \<^verbatim>\<open>Update\<close> inserts
  again).

  On the table store, for every world: \<^verbatim>\<open>Update\<close> returns nil. If a row with the
  record's identity is stored, the table afterwards is the old one with that row
  overwritten: same length, as many rows of that identity as before. In every other
  state the table afterwards is the old one with one row appended; this holds for each
  such call, since the store keeps no memory of earlier calls.
\<close>

theorem Update_upserts:
  assumes "Database r = Some h" and "records w a = Some x"
  shows "\<exists>w'. Update table_store r (Some a) w = Return (None, w') \<and>
           (if ID x \<noteq> 0 \<and> list_ex (\<lambda>y. ID y = ID x) (table w)
            then table w' = map (\<lambda>y. if ID y = ID x then x else y) (table w) \<and>
                 length (table w') = length (table w) \<and>
                 length (filter (\<lambda>y. ID y = ID x) (table w'))
                   = length (filter (\<lambda>y. ID y = ID x) (table w))
            else table w' = table w @ [if ID x = 0 then x\<lparr>ID := next_id w\<rparr> else x] \<and>
                 length (table w') = Suc (length (table w)))"
proof (cases "ID x \<noteq> 0 \<and> list_ex (\<lambda>y. ID y = ID x) (table w)")
  case True
  with assms have "gorm_Save table_store (Database r) (Ptr (Some a)) w =
     Return (affected 1, w\<lparr>table := map (\<lambda>y. if ID y = ID x then x else y) (table w)\<rparr>)"
    by (simp add: gorm_table_store table_Save_known)
  then have "Update table_store r (Some a) w =
     Return (None, w\<lparr>table := map (\<lambda>y. if ID y = ID x then x else y) (table w)\<rparr>)"
    by (simp add: Update_store table_results)
  moreover have
    "length (filter (\<lambda>y. ID y = ID x) (map (\<lambda>y. if ID y = ID x then x else y) (table w)))
      = length (filter (\<lambda>y. ID y = ID x) (table w))"
    by (rule same_identity_count)
  ultimately show ?thesis
    using True
    by (intro exI [of _ "w\<lparr>table := map (\<lambda>y. if ID y = ID x then x else y) (table w)\<rparr>"])
      (simp del: filter_map length_filter_map)
next
  case False
  with assms have "gorm_Save table_store (Database r) (Ptr (Some a)) w =
     Return (affected 1, store_row a x w)"
    by (simp add: gorm_table_store table_Save_new)
  then have "Update table_store r (Some a) w = Return (None, store_row a x w)"
    by (simp add: Update_store table_results)
  with False show ?thesis
    by (simp add: table_store_row)
qed

theorem Update_upserts_witness:
  "Database repo0 = Some 0 \<and> records world1 4 = Some rob \<and> records world1 0 = Some blank \<and>
   (\<exists>w'. Update table_store repo0 (Some 4) world1 = Return (None, w') \<and> table w' = [rob, ann]) \<and>
   (\<exists>w'. Update table_store repo0 (Some 0) world1 = Return (None, w') \<and>
         table w' = [bob, ann, blank\<lparr>ID := 3\<rparr>])"
proof -
  note h = repo0_handle(1)
  from Update_upserts [OF h world1_simps(2)]
  have known: "\<exists>w'. Update table_store repo0 (Some 4) world1 = Return (None, w') \<and>
      table w' = [rob, ann]"
    by (auto simp: world1_simps row_simps)
  from Update_upserts [OF h world1_simps(1)]
  have new: "\<exists>w'. Update table_store repo0 (Some 0) world1 = Return (None, w') \<and>
         table w' = [bob, ann, blank\<lparr>ID := 3\<rparr>]"
    by (auto simp: world1_simps row_simps)
  from known new show ?thesis
    by (simp add: h world1_simps)
qed

lemma table_Delete_identified:
  "records w a = Some x \<Longrightarrow> ID x \<noteq> 0 \<Longrightarrow>
   table_Delete (Some h) (Ptr (Some a)) w =
     Return (affected (int (length (filter (hit x) (table w)))),
       w\<lparr>table := (if soft_delete w
                    then map (\<lambda>y. if hit x y then y\<lparr>DeletedAt := Some (clock w)\<rparr> else y) (table w)
                    else filter (\<lambda>y. \<not> hit x y) (table w))\<rparr>)"
  by (simp add: table_Delete_def)

lemma no_match_after_removal:
  "matching [IdEq (ID x)] (filter (\<lambda>y. \<not> hit x y) rows) = []"
  by (induction rows) (auto simp: matching_def hit_def)

text \<open>
  Claim C8. \<^verbatim>\<open>Delete\<close> returns the count of rows affected; when the record type carries
  the deletion-timestamp field the store sets it to the current time and keeps the row,
  and otherwise the row is removed, so that a later \<^verbatim>\<open>First\<close> by that identity finds
  nothing.

  On the table store, for a record that carries an identity: \<^verbatim>\<open>Delete\<close> returns a nil
  error and the number of rows it hit. With the timestamp field, the table keeps every
  row and the rows hit carry the clock's time; without it, the rows hit are gone and
  \<^verbatim>\<open>First\<close> on that identity returns nil and writes nothing.
\<close>

theorem Delete_soft_or_hard:
  assumes "Database r = Some h" and "records w a = Some x" and "ID x \<noteq> 0"
  shows "\<exists>w'. Delete table_store r (Some a) w
             = Return ((int (length (filter (hit x) (table w))), None), w') \<and>
           (if soft_delete w
            then table w' = map (\<lambda>y. if hit x y then y\<lparr>DeletedAt := Some (clock w)\<rparr> else y)
                              (table w) \<and>
                 length (table w') = length (table w)
            else table w' = filter (\<lambda>y. \<not> hit x y) (table w) \<and>
                 First table_store r t [IdEq (ID x)] w' = Return (None, w'))"
proof -
  define w' where "w' = w\<lparr>table := (if soft_delete w
                    then map (\<lambda>y. if hit x y then y\<lparr>DeletedAt := Some (clock w)\<rparr> else y) (table w)
                    else filter (\<lambda>y. \<not> hit x y) (table w))\<rparr>"
  from assms have "gorm_Delete table_store (Database r) (Ptr (Some a)) w =
     Return (affected (int (length (filter (hit x) (table w)))), w')"
    by (simp add: gorm_table_store table_Delete_identified w'_def)
  then have d: "Delete table_store r (Some a) w
             = Return ((int (length (filter (hit x) (table w))), None), w')"
    by (simp add: Delete_store table_results)
  have "First table_store r t [IdEq (ID x)] w' = Return (None, w')" if "\<not> soft_delete w"
  proof -
    from that have "matching [IdEq (ID x)] (table w') = []"
      by (simp add: w'_def no_match_after_removal)
    with assms(1)
    have "gorm_First table_store (Database r) (PtrPtr t) [IdEq (ID x)] w' = Return (no_rows, w')"
      by (simp add: gorm_First_table table_First_no_match)
    then show ?thesis
      by (simp add: First_store Error_no_rows)
  qed
  with d show ?thesis
    by (auto simp: w'_def)
qed

theorem Delete_soft_or_hard_witness:
  "Database repo0 = Some 0 \<and> records world1 4 = Some rob \<and> ID rob \<noteq> 0 \<and>
   \<not> soft_delete world1 \<and> soft_delete (world1\<lparr>soft_delete := True\<rparr>) \<and>
   (\<exists>w'. Delete table_store repo0 (Some 4) world1 = Return ((1, None), w') \<and> table w' = [ann] \<and>
         First table_store repo0 (Some 0) [IdEq 2] w' = Return (None, w')) \<and>
   (\<exists>w'. Delete table_store repo0 (Some 4) (world1\<lparr>soft_delete := True\<rparr>)
           = Return ((1, None), w') \<and>
         table w' = [bob\<lparr>DeletedAt := Some 7\<rparr>, ann])"
proof -
  note h = repo0_handle(1)
  have n: "ID rob \<noteq> 0"
    by (simp add: row_simps)
  have s: "records (world1\<lparr>soft_delete := True\<rparr>) 4 = Some rob"
    by (simp add: world1_simps)
  from Delete_soft_or_hard [OF h world1_simps(2) n, of "Some 0"]
  have hard: "\<exists>w'. Delete table_store repo0 (Some 4) world1 = Return ((1, None), w') \<and>
         table w' = [ann] \<and> First table_store repo0 (Some 0) [IdEq 2] w' = Return (None, w')"
    by (auto simp: world1_simps row_simps hit_def)
  from Delete_soft_or_hard [OF h s n]
  have soft: "\<exists>w'. Delete table_store repo0 (Some 4) (world1\<lparr>soft_delete := True\<rparr>)
           = Return ((1, None), w') \<and>
         table w' = [bob\<lparr>DeletedAt := Some 7\<rparr>, ann]"
    by (auto simp: world1_simps row_simps hit_def)
  from hard soft show ?thesis
    by (simp add: h n world1_simps)
qed

end
